theory Spec2Isabelle
  imports Main
begin

text \<open>
  A shallow embedding of the record-management dashboard: the API layer over the backend's
  query builder, the location edit form, the location card, the address form and the
  effect of the map that adds the location points; followed by what holds of them.
\<close>

section \<open>JavaScript values and objects\<close>

text \<open>
  The values that travel between the forms, the API layer and the backend. The number
  type is a parameter: the program only ever compares numbers, adds them and passes
  them on, so each theorem names the structure on numbers it relies on.
\<close>

datatype 'n jsval = JUndefined | JNull | JBool bool | JNum 'n | JStr string

text \<open>An object is a finite map from property names to values; an absent key reads as
  \<^verbatim>\<open>undefined\<close>.\<close>

type_synonym 'n jsobj = "string \<rightharpoonup> 'n jsval"

text \<open>A filter object (\<^verbatim>\<open>CompanyFilters\<close>, \<^verbatim>\<open>LocationFilters\<close>,
  \<^verbatim>\<open>CircuitFilters\<close>, \<^verbatim>\<open>DashboardFilters\<close>): every field is an optional string.\<close>

type_synonym filters = "string \<rightharpoonup> string"

text \<open>\<^verbatim>\<open>filters?.field\<close>: undefined when the filter object itself is undefined.\<close>

definition opt_field :: "filters option \<Rightarrow> string \<Rightarrow> string option" where
  "opt_field f k = (case f of None \<Rightarrow> None | Some m \<Rightarrow> m k)"

text \<open>\<^verbatim>\<open>if (filters?.field) query = g(filters.field, query)\<close>: a string is truthy
  when it is defined and not empty.\<close>

definition when_truthy :: "string option \<Rightarrow> (string \<Rightarrow> 'q \<Rightarrow> 'q) \<Rightarrow> 'q \<Rightarrow> 'q" where
  "when_truthy s g q = (case s of None \<Rightarrow> q | Some v \<Rightarrow> if v = [] then q else g v q)"

section \<open>The backend's query builder\<close>

text \<open>
  A request is what the fluent builder has accumulated when it is awaited: the table, the
  verb with its payload, the column list of \<^verbatim>\<open>select\<close>, the predicates in the order
  they were added, the ordering, and the modifiers \<^verbatim>\<open>single\<close>, \<^verbatim>\<open>maybeSingle\<close>
  and \<^verbatim>\<open>throwOnError\<close>.
\<close>

datatype predicate = Eq string string | Or string

datatype 'n verb = Select | Insert "'n jsobj list" | Update "'n jsobj" | Rpc string "'n jsobj"

datatype cardinality = Many | Single | MaybeSingle

record 'n request =
  table :: string
  verb :: "'n verb"
  columns :: "string option"
  preds :: "predicate list"
  ordering :: "(string \<times> bool) list"
  cardinality :: cardinality
  throw_on_error :: bool

definition from_table :: "string \<Rightarrow> 'n request" where
  "from_table t = \<lparr>table = t, verb = Select, columns = None, preds = [], ordering = [],
     cardinality = Many, throw_on_error = False\<rparr>"

definition select :: "string \<Rightarrow> 'n request \<Rightarrow> 'n request" where
  "select cols q = q\<lparr>columns := Some cols\<rparr>"

definition insert_rows :: "'n jsobj list \<Rightarrow> 'n request \<Rightarrow> 'n request" where
  "insert_rows rows q = q\<lparr>verb := Insert rows\<rparr>"

definition update :: "'n jsobj \<Rightarrow> 'n request \<Rightarrow> 'n request" where
  "update obj q = q\<lparr>verb := Update obj\<rparr>"

definition rpc :: "string \<Rightarrow> 'n jsobj \<Rightarrow> 'n request" where
  "rpc fn args = \<lparr>table = [], verb = Rpc fn args, columns = None, preds = [], ordering = [],
     cardinality = Many, throw_on_error = False\<rparr>"

definition eq :: "string \<Rightarrow> string \<Rightarrow> 'n request \<Rightarrow> 'n request" where
  "eq col v q = q\<lparr>preds := preds q @ [Eq col v]\<rparr>"

definition or_filter :: "string \<Rightarrow> 'n request \<Rightarrow> 'n request" where
  "or_filter s q = q\<lparr>preds := preds q @ [Or s]\<rparr>"

definition order :: "string \<Rightarrow> bool \<Rightarrow> 'n request \<Rightarrow> 'n request" where
  "order col asc q = q\<lparr>ordering := ordering q @ [(col, asc)]\<rparr>"

definition single :: "'n request \<Rightarrow> 'n request" where
  "single q = q\<lparr>cardinality := Single\<rparr>"

definition maybeSingle :: "'n request \<Rightarrow> 'n request" where
  "maybeSingle q = q\<lparr>cardinality := MaybeSingle\<rparr>"

definition throwOnError :: "'n request \<Rightarrow> 'n request" where
  "throwOnError q = q\<lparr>throw_on_error := True\<rparr>"

text \<open>
  The backend answers a request with \<^verbatim>\<open>{ data, error }\<close>. It is outside the
  repository, so it is a parameter of every API function: any function from requests to
  responses.
\<close>

datatype backend_error = BackendError string

record 'd response =
  data :: "'d option"
  error :: "backend_error option"

type_synonym ('n, 'd) backend = "'n request \<Rightarrow> 'd response"

text \<open>What an API function can reject with: the backend's own error object, a
  \<^verbatim>\<open>new Error(message)\<close>, or the TypeError of reading a property of \<^verbatim>\<open>null\<close>.\<close>

datatype js_error = Thrown backend_error | Error string | TypeError

text \<open>\<^verbatim>\<open>await query\<close>: with \<^verbatim>\<open>throwOnError\<close> the promise rejects with the backend's
  error instead of resolving to a response that carries it.\<close>

definition await :: "('n, 'd) backend \<Rightarrow> 'n request \<Rightarrow> js_error + 'd response" where
  "await db q =
     (let r = db q in
      case error r of
        Some e \<Rightarrow> if throw_on_error q then Inl (Thrown e) else Inr r
      | None \<Rightarrow> Inr r)"

text \<open>\<^verbatim>\<open>if (error) throw error; return data;\<close>\<close>

definition throw_or_data :: "'d response \<Rightarrow> js_error + 'd option" where
  "throw_or_data r = (case error r of Some e \<Rightarrow> Inl (Thrown e) | None \<Rightarrow> Inr (data r))"

text \<open>The common shape of an API function: await the request, throw the error or return
  the data.\<close>

definition run :: "('n, 'd) backend \<Rightarrow> 'n request \<Rightarrow> js_error + 'd option" where
  "run db q = (case await db q of Inl e \<Rightarrow> Inl e | Inr r \<Rightarrow> throw_or_data r)"

section \<open>The API layer (\<^verbatim>\<open>lib/api.ts\<close>)\<close>

text \<open>
  Every function below is the source function of the same name. The request it builds is
  a definition of its own (\<open>_query\<close>), so that what is sent can be stated apart from
  what comes back. Column lists are written without the template literal's white space.
  Writes to the console are not part of the model: they change no result.
\<close>

text \<open>The template literal \<^verbatim>\<open>`name.ilike.%${s}%,` + ...\<close> of a search filter.\<close>

definition ilike :: "string \<Rightarrow> string \<Rightarrow> string" where
  "ilike col s = col @ ''.ilike.%'' @ s @ ''%''"

subsection \<open>Companies\<close>

definition getCompanies_columns :: string where
  "getCompanies_columns =
     ''id,name,street_address,address_city,address_state,address_zip,address_country,'' @
     ''phone,email,website,created_at,updated_at''"

definition getCompanies_query :: "filters option \<Rightarrow> 'n request" where
  "getCompanies_query f =
     (let query = select getCompanies_columns (from_table ''companies'');
          query = when_truthy (opt_field f ''search'')
                    (\<lambda>s. or_filter (ilike ''name'' s @ '','' @ ilike ''address_city'' s @ '','' @
                                    ilike ''address_state'' s)) query;
          query = when_truthy (opt_field f ''state'') (eq ''address_state'') query;
          query = when_truthy (opt_field f ''city'') (eq ''address_city'') query
      in order ''name'' True query)"

definition getCompanies :: "('n, 'd) backend \<Rightarrow> filters option \<Rightarrow> js_error + 'd option" where
  "getCompanies db f = run db (getCompanies_query f)"

definition getCompany_query :: "string \<Rightarrow> 'n request" where
  "getCompany_query i = single (eq ''id'' i (select ''*'' (from_table ''companies'')))"

definition getCompany :: "('n, 'd) backend \<Rightarrow> string \<Rightarrow> js_error + 'd option" where
  "getCompany db i = run db (getCompany_query i)"

definition createCompany_query :: "'n jsobj \<Rightarrow> 'n request" where
  "createCompany_query company =
     single (select ''*'' (insert_rows [company] (from_table ''companies'')))"

definition createCompany :: "('n, 'd) backend \<Rightarrow> 'n jsobj \<Rightarrow> js_error + 'd option" where
  "createCompany db company = run db (createCompany_query company)"

text \<open>
  \<^verbatim>\<open>{ ...record, updated_at: new Date().toISOString() }\<close>: the record's own properties,
  with \<open>updated_at\<close> set (or overwritten) to the client's clock reading. The reading
  \<open>now\<close> is a parameter of every update function.
\<close>

definition with_updated_at :: "string \<Rightarrow> 'n jsobj \<Rightarrow> 'n jsobj" where
  "with_updated_at now obj = obj(''updated_at'' \<mapsto> JStr now)"

definition updateCompany_query :: "string \<Rightarrow> string \<Rightarrow> 'n jsobj \<Rightarrow> 'n request" where
  "updateCompany_query now i company =
     single (select ''*'' (eq ''id'' i (update (with_updated_at now company)
       (from_table ''companies''))))"

definition updateCompany ::
  "('n, 'd) backend \<Rightarrow> string \<Rightarrow> string \<Rightarrow> 'n jsobj \<Rightarrow> js_error + 'd option" where
  "updateCompany db now i company = run db (updateCompany_query now i company)"

subsection \<open>Locations\<close>

definition updateLocation_query :: "string \<Rightarrow> string \<Rightarrow> 'n jsobj \<Rightarrow> 'n request" where
  "updateLocation_query now i location =
     single (select ''*'' (eq ''id'' i (update (with_updated_at now location)
       (from_table ''locations''))))"

definition updateLocation ::
  "('n, 'd) backend \<Rightarrow> string \<Rightarrow> string \<Rightarrow> 'n jsobj \<Rightarrow> js_error + 'd option" where
  "updateLocation db now i location = run db (updateLocation_query now i location)"

definition getLocations_columns :: string where
  "getLocations_columns =
     ''id,name,address,city,state,zip_code,country,criticality,site_description,'' @
     ''critical_processes,active_users,num_servers,hosted_applications,longitude,latitude,'' @
     ''created_at,updated_at,company_id,company:companies(id,name)''"

text \<open>The query as \<^verbatim>\<open>getLocations\<close> builds it, one conditional
  \<^verbatim>\<open>query = query...\<close> after the other.\<close>

definition getLocations_query :: "filters option \<Rightarrow> 'n request" where
  "getLocations_query f =
     (let query = select getLocations_columns (from_table ''locations'');
          query = when_truthy (opt_field f ''search'')
                    (\<lambda>s. or_filter (ilike ''name'' s @ '','' @ ilike ''address'' s @ '','' @
                                    ilike ''city'' s @ '','' @ ilike ''state'' s)) query;
          query = when_truthy (opt_field f ''state'') (eq ''state'') query;
          query = when_truthy (opt_field f ''city'') (eq ''city'') query;
          query = when_truthy (opt_field f ''criticality'') (eq ''criticality'') query;
          query = when_truthy (opt_field f ''company_id'') (eq ''company_id'') query
      in throwOnError (order ''name'' True query))"

definition getLocations :: "('n, 'd) backend \<Rightarrow> filters option \<Rightarrow> js_error + 'd option" where
  "getLocations db f = run db (getLocations_query f)"

definition getLocation_query :: "string \<Rightarrow> 'n request" where
  "getLocation_query i =
     single (eq ''id'' i (select ''*,company:companies(*)'' (from_table ''locations'')))"

definition getLocation :: "('n, 'd) backend \<Rightarrow> string \<Rightarrow> js_error + 'd option" where
  "getLocation db i = run db (getLocation_query i)"

definition createLocation_query :: "'n jsobj \<Rightarrow> 'n request" where
  "createLocation_query location =
     single (select ''*'' (insert_rows [location] (from_table ''locations'')))"

definition createLocation :: "('n, 'd) backend \<Rightarrow> 'n jsobj \<Rightarrow> js_error + 'd option" where
  "createLocation db location = run db (createLocation_query location)"

subsection \<open>Circuits\<close>

definition getCircuits_query :: "filters option \<Rightarrow> 'n request" where
  "getCircuits_query f =
     (let query = select ''*,location:locations(name,company:companies(name))''
                    (from_table ''circuits'');
          query = when_truthy (opt_field f ''search'')
                    (\<lambda>s. or_filter (ilike ''carrier'' s @ '','' @ ilike ''type'' s @ '','' @
                                    ilike ''bandwidth'' s)) query;
          query = when_truthy (opt_field f ''carrier'') (eq ''carrier'') query;
          query = when_truthy (opt_field f ''type'') (eq ''type'') query;
          query = when_truthy (opt_field f ''status'') (eq ''status'') query;
          query = when_truthy (opt_field f ''location_id'') (eq ''location_id'') query
      in order ''carrier'' True query)"

definition getCircuits :: "('n, 'd) backend \<Rightarrow> filters option \<Rightarrow> js_error + 'd option" where
  "getCircuits db f = run db (getCircuits_query f)"

definition getCircuit_query :: "string \<Rightarrow> 'n request" where
  "getCircuit_query i =
     single (eq ''id'' i (select ''*,location:locations(*,company:companies(*))''
       (from_table ''circuits'')))"

definition getCircuit :: "('n, 'd) backend \<Rightarrow> string \<Rightarrow> js_error + 'd option" where
  "getCircuit db i = run db (getCircuit_query i)"

definition createCircuit_query :: "'n jsobj \<Rightarrow> 'n request" where
  "createCircuit_query circuit =
     single (select ''*'' (insert_rows [circuit] (from_table ''circuits'')))"

definition createCircuit :: "('n, 'd) backend \<Rightarrow> 'n jsobj \<Rightarrow> js_error + 'd option" where
  "createCircuit db circuit = run db (createCircuit_query circuit)"

definition updateCircuit_query :: "string \<Rightarrow> string \<Rightarrow> 'n jsobj \<Rightarrow> 'n request" where
  "updateCircuit_query now i circuit =
     single (select ''*'' (eq ''id'' i (update (with_updated_at now circuit)
       (from_table ''circuits''))))"

definition updateCircuit ::
  "('n, 'd) backend \<Rightarrow> string \<Rightarrow> string \<Rightarrow> 'n jsobj \<Rightarrow> js_error + 'd option" where
  "updateCircuit db now i circuit = run db (updateCircuit_query now i circuit)"

subsection \<open>The authenticated user\<close>

text \<open>\<^verbatim>\<open>supabase.auth.getUser()\<close> takes no argument and answers with
  \<^verbatim>\<open>{ data: { user }, error }\<close>; its answer is a parameter as well.\<close>

record user =
  uid :: string

record auth_response =
  auth_user :: "user option"
  auth_error :: "backend_error option"

text \<open>\<^verbatim>\<open>if (authError) throw authError; if (!user) throw new Error('No authenticated user');\<close>\<close>

definition require_user :: "auth_response \<Rightarrow> js_error + user" where
  "require_user a =
     (case auth_error a of
        Some e \<Rightarrow> Inl (Thrown e)
      | None \<Rightarrow> (case auth_user a of
                   None \<Rightarrow> Inl (Error ''No authenticated user'')
                 | Some u \<Rightarrow> Inr u))"

definition updateUserProfile_query :: "string \<Rightarrow> user \<Rightarrow> 'n jsobj \<Rightarrow> 'n request" where
  "updateUserProfile_query now u d =
     single (select ''*'' (eq ''user_id'' (uid u) (update (with_updated_at now d)
       (from_table ''user_profiles''))))"

definition updateUserProfile ::
  "auth_response \<Rightarrow> ('n, 'd) backend \<Rightarrow> string \<Rightarrow> 'n jsobj \<Rightarrow> js_error + 'd option" where
  "updateUserProfile auth db now d =
     (case require_user auth of
        Inl e \<Rightarrow> Inl e
      | Inr u \<Rightarrow> run db (updateUserProfile_query now u d))"

subsection \<open>Dashboard statistics\<close>

text \<open>The two columns of a fetched circuit that \<^verbatim>\<open>getDashboardStats\<close> reads.\<close>

record 'n circuit_row =
  status :: string
  monthlycost :: "'n option"

record 'n dashboard_stats =
  totalCircuits :: nat
  activeCircuits :: nat
  inactiveCircuits :: nat
  totalMonthlyCost :: 'n

definition getDashboardStats_query :: "filters option \<Rightarrow> 'n request" where
  "getDashboardStats_query f =
     (let query = select ''status,monthlycost,location:locations!inner(id,company_id)''
                    (from_table ''circuits'');
          query = when_truthy (opt_field f ''location_id'') (eq ''location_id'') query;
          query = when_truthy (opt_field f ''company_id'') (eq ''location.company_id'') query
      in query)"

text \<open>\<^verbatim>\<open>c.monthlycost || 0\<close>: null, undefined and the number zero are falsy.\<close>

definition or_zero :: "'n::zero option \<Rightarrow> 'n" where
  "or_zero c = (case c of None \<Rightarrow> 0 | Some v \<Rightarrow> if v = 0 then 0 else v)"

text \<open>The four aggregates, computed from the fetched rows in the order of the source:
  \<^verbatim>\<open>length\<close>, two \<^verbatim>\<open>filter(...).length\<close> and a \<^verbatim>\<open>reduce\<close> from 0.\<close>

definition dashboard_stats_of :: "'n::{zero,plus} circuit_row list \<Rightarrow> 'n dashboard_stats" where
  "dashboard_stats_of circuits =
     \<lparr>totalCircuits = length circuits,
      activeCircuits = length (filter (\<lambda>c. status c = ''Active'') circuits),
      inactiveCircuits = length (filter (\<lambda>c. status c = ''Inactive'') circuits),
      totalMonthlyCost = foldl (\<lambda>sum c. sum + or_zero (monthlycost c)) 0 circuits\<rparr>"

text \<open>With no error and \<^verbatim>\<open>data\<close> null, \<^verbatim>\<open>circuits.length\<close> is a TypeError.\<close>

definition getDashboardStats ::
  "('m, 'n::{zero,plus} circuit_row list) backend \<Rightarrow> filters option
     \<Rightarrow> js_error + 'n dashboard_stats" where
  "getDashboardStats db f =
     (case run db (getDashboardStats_query f) of
        Inl e \<Rightarrow> Inl e
      | Inr None \<Rightarrow> Inl TypeError
      | Inr (Some circuits) \<Rightarrow> Inr (dashboard_stats_of circuits))"

subsection \<open>User profiles\<close>

definition getCurrentUserProfile_select :: "user \<Rightarrow> 'n request" where
  "getCurrentUserProfile_select u =
     maybeSingle (eq ''user_id'' (uid u) (select ''*'' (from_table ''user_profiles'')))"

definition getCurrentUserProfile_insert :: "user \<Rightarrow> 'n request" where
  "getCurrentUserProfile_insert u =
     single (select ''*''
       (insert_rows [[''user_id'' \<mapsto> JStr (uid u), ''role'' \<mapsto> JStr ''viewer'']]
         (from_table ''user_profiles'')))"

text \<open>A fetched profile is an object, hence truthy: \<^verbatim>\<open>!data\<close> holds exactly when
  \<^verbatim>\<open>data\<close> is null.\<close>

definition getCurrentUserProfile ::
  "auth_response \<Rightarrow> ('n, 'd) backend \<Rightarrow> js_error + 'd option" where
  "getCurrentUserProfile auth db =
     (case require_user auth of
        Inl e \<Rightarrow> Inl e
      | Inr u \<Rightarrow>
          (case await db (getCurrentUserProfile_select u) of
             Inl e \<Rightarrow> Inl e
           | Inr r \<Rightarrow>
               (case error r of
                  Some e \<Rightarrow> Inl (Error ''Failed to fetch user profile'')
                | None \<Rightarrow>
                    (case data r of
                       Some profile \<Rightarrow> Inr (Some profile)
                     | None \<Rightarrow>
                         (case await db (getCurrentUserProfile_insert u) of
                            Inl e \<Rightarrow> Inl e
                          | Inr r' \<Rightarrow>
                              (case error r' of
                                 Some e \<Rightarrow> Inl (Error ''Failed to create user profile'')
                               | None \<Rightarrow> Inr (data r')))))))"

definition getUserProfiles_query :: "'n request" where
  "getUserProfiles_query =
     order ''created_at'' False
       (select ''*,user:auth.users!user_id(email,last_sign_in_at)'' (from_table ''user_profiles''))"

definition getUserProfiles :: "('n, 'd) backend \<Rightarrow> js_error + 'd option" where
  "getUserProfiles db = run db getUserProfiles_query"

datatype role = Admin | Viewer

fun role_name :: "role \<Rightarrow> string" where
  "role_name Admin = ''admin''"
| "role_name Viewer = ''viewer''"

definition updateUserRole_query :: "string \<Rightarrow> role \<Rightarrow> 'n request" where
  "updateUserRole_query userId r =
     single (select ''*'' (eq ''user_id'' userId (update [''role'' \<mapsto> JStr (role_name r)]
       (from_table ''user_profiles''))))"

definition updateUserRole :: "('n, 'd) backend \<Rightarrow> string \<Rightarrow> role \<Rightarrow> js_error + 'd option" where
  "updateUserRole db userId r = run db (updateUserRole_query userId r)"

subsection \<open>Environment variables\<close>

record env_row =
  env_value :: "string option"

definition getEnvironmentVariable_query :: "string \<Rightarrow> 'n request" where
  "getEnvironmentVariable_query key =
     throwOnError (single (rpc ''get_environment_variable'' [''var_key'' \<mapsto> JStr key]))"

text \<open>\<^verbatim>\<open>data?.value || null\<close>: null when the row is null, when it has no value and when
  the value is the empty string.\<close>

definition value_or_null :: "env_row option \<Rightarrow> string option" where
  "value_or_null d =
     (case d of
        None \<Rightarrow> None
      | Some row \<Rightarrow> (case env_value row of
                      None \<Rightarrow> None
                    | Some v \<Rightarrow> if v = [] then None else Some v))"

text \<open>The body of the \<^verbatim>\<open>try\<close> block, and the function with its \<^verbatim>\<open>catch\<close>, which
  returns null for whatever was thrown.\<close>

definition getEnvironmentVariable_try ::
  "('n, env_row) backend \<Rightarrow> string \<Rightarrow> js_error + string option" where
  "getEnvironmentVariable_try db key =
     (case run db (getEnvironmentVariable_query key) of
        Inl e \<Rightarrow> Inl e
      | Inr d \<Rightarrow> Inr (value_or_null d))"

definition getEnvironmentVariable ::
  "('n, env_row) backend \<Rightarrow> string \<Rightarrow> js_error + string option" where
  "getEnvironmentVariable db key =
     (case getEnvironmentVariable_try db key of
        Inl e \<Rightarrow> Inr None
      | Inr v \<Rightarrow> Inr v)"

section \<open>Reading JavaScript values\<close>

text \<open>\<^verbatim>\<open>obj.key\<close>: an absent property reads as undefined.\<close>

definition get_prop :: "'n jsobj \<Rightarrow> string \<Rightarrow> 'n jsval" where
  "get_prop ob k = (case ob k of None \<Rightarrow> JUndefined | Some v \<Rightarrow> v)"

text \<open>\<^verbatim>\<open>!v\<close>: the falsy values are undefined, null, false, the number zero and the empty
  string. (\<^verbatim>\<open>NaN\<close> is falsy too; it is not a value of the number type, since the records
  arrive as JSON.)\<close>

fun falsy :: "'n::zero jsval \<Rightarrow> bool" where
  "falsy JUndefined = True"
| "falsy JNull = True"
| "falsy (JBool b) = (\<not> b)"
| "falsy (JNum n) = (n = 0)"
| "falsy (JStr s) = (s = [])"

text \<open>\<^verbatim>\<open>a || b\<close>\<close>

definition js_or :: "'n::zero jsval \<Rightarrow> 'n jsval \<Rightarrow> 'n jsval" where
  "js_or a b = (if falsy a then b else a)"

text \<open>The string a value contributes to a template literal. How a number prints is the
  engine's business, so the printer of numbers is a parameter.\<close>

fun to_string :: "('n \<Rightarrow> string) \<Rightarrow> 'n jsval \<Rightarrow> string" where
  "to_string sh JUndefined = ''undefined''"
| "to_string sh JNull = ''null''"
| "to_string sh (JBool b) = (if b then ''true'' else ''false'')"
| "to_string sh (JNum n) = sh n"
| "to_string sh (JStr s) = s"

section \<open>The location edit form (\<^verbatim>\<open>LocationEditForm.tsx\<close>)\<close>

text \<open>The initial \<^verbatim>\<open>formData\<close>, from the \<^verbatim>\<open>location\<close> prop.\<close>

definition initial_formData :: "'n::zero jsobj \<Rightarrow> 'n jsobj" where
  "initial_formData location =
     [''name'' \<mapsto> get_prop location ''name'',
      ''address'' \<mapsto> get_prop location ''address'',
      ''city'' \<mapsto> get_prop location ''city'',
      ''state'' \<mapsto> get_prop location ''state'',
      ''zip_code'' \<mapsto> get_prop location ''zip_code'',
      ''site_description'' \<mapsto> js_or (get_prop location ''site_description'') (JStr []),
      ''critical_processes'' \<mapsto> js_or (get_prop location ''critical_processes'') (JStr []),
      ''active_users'' \<mapsto> js_or (get_prop location ''active_users'') (JNum 0),
      ''num_servers'' \<mapsto> js_or (get_prop location ''num_servers'') (JNum 0),
      ''hosted_applications'' \<mapsto> js_or (get_prop location ''hosted_applications'') (JStr []),
      ''country'' \<mapsto> get_prop location ''country'',
      ''criticality'' \<mapsto> get_prop location ''criticality'',
      ''company_id'' \<mapsto> get_prop location ''company_id'']"

text \<open>\<^verbatim>\<open>setFormData(prev => ({ ...prev, [name]: value }))\<close>; the value of an input or a
  select is a string.\<close>

definition handleChange :: "'n jsobj \<Rightarrow> string \<Rightarrow> string \<Rightarrow> 'n jsobj" where
  "handleChange prev name v = prev(name \<mapsto> JStr v)"

text \<open>The \<^verbatim>\<open>option\<close> elements of the criticality \<^verbatim>\<open>select\<close>, which are the values its
  change event can carry.\<close>

definition criticality_options :: "string list" where
  "criticality_options = [''Low'', ''Medium'', ''High'']"

text \<open>What a submit does, in order, as a list of events.\<close>

datatype 'n event =
    PreventDefault
  | GeocodeAddress string
  | Backend "'n request"
  | InvalidateQueries string
  | OnClose

text \<open>\<^verbatim>\<open>coords?.key\<close> on what the geocoder resolved to: an object or null.\<close>

definition coords_prop :: "'n jsobj option \<Rightarrow> string \<Rightarrow> 'n jsval" where
  "coords_prop coords k = (case coords of None \<Rightarrow> JUndefined | Some c \<Rightarrow> get_prop c k)"

text \<open>
  \<^verbatim>\<open>mutationFn: () => updateLocation(location.id, formData)\<close>. The function declares
  no parameter: the variables that \<^verbatim>\<open>mutate\<close> hands it are dropped, and the record sent
  is the \<^verbatim>\<open>formData\<close> of the render.
\<close>

definition mutationFn ::
  "('n, 'd) backend \<Rightarrow> string \<Rightarrow> string \<Rightarrow> 'n jsobj \<Rightarrow> 'n jsobj \<Rightarrow> js_error + 'd option" where
  "mutationFn db now location_id formData variables = updateLocation db now location_id formData"

text \<open>\<^verbatim>\<open>mutate(variables)\<close> of \<^verbatim>\<open>useMutation\<close>: it calls the mutation function with the
  variables, and \<^verbatim>\<open>onSuccess\<close> when that resolves; a rejection is kept by the
  mutation and nothing more happens.\<close>

definition mutate ::
  "('n, 'd) backend \<Rightarrow> string \<Rightarrow> string \<Rightarrow> 'n jsobj \<Rightarrow> 'n jsobj \<Rightarrow> 'n event list" where
  "mutate db now location_id formData variables =
     Backend (updateLocation_query now location_id formData) #
     (case mutationFn db now location_id formData variables of
        Inl e \<Rightarrow> []
      | Inr d \<Rightarrow> [InvalidateQueries ''locations'', OnClose])"

definition fullAddress :: "('n \<Rightarrow> string) \<Rightarrow> 'n jsobj \<Rightarrow> string" where
  "fullAddress sh formData =
     to_string sh (get_prop formData ''address'') @ '', '' @
     to_string sh (get_prop formData ''city'') @ '', '' @
     to_string sh (get_prop formData ''state'') @ '' '' @
     to_string sh (get_prop formData ''zip_code'')"

text \<open>The object literal that \<^verbatim>\<open>handleSubmit\<close> passes to \<^verbatim>\<open>mutate\<close>.\<close>

definition submit_variables :: "'n jsobj \<Rightarrow> 'n jsobj option \<Rightarrow> 'n jsobj" where
  "submit_variables formData coords =
     formData(''longitude'' \<mapsto> coords_prop coords ''longitude'',
              ''latitude'' \<mapsto> coords_prop coords ''latitude'')"

text \<open>
  \<^verbatim>\<open>handleSubmit\<close>. The geocoder (\<^verbatim>\<open>lib/maps\<close>) is outside the sources: it is a
  parameter, resolving to coordinates or null, or rejecting. The \<^verbatim>\<open>then\<close> callback
  runs only when it resolves.
\<close>

definition handleSubmit ::
  "('n \<Rightarrow> string) \<Rightarrow> (string \<Rightarrow> js_error + 'n jsobj option) \<Rightarrow> ('n, 'd) backend \<Rightarrow> string
     \<Rightarrow> string \<Rightarrow> 'n jsobj \<Rightarrow> 'n event list" where
  "handleSubmit sh geocodeAddress db now location_id formData =
     PreventDefault # GeocodeAddress (fullAddress sh formData) #
     (case geocodeAddress (fullAddress sh formData) of
        Inl e \<Rightarrow> []
      | Inr coords \<Rightarrow> mutate db now location_id formData (submit_variables formData coords))"

section \<open>The location card (\<^verbatim>\<open>LocationCard.tsx\<close>)\<close>

text \<open>
  The properties that an object literal inherits from the object prototype: those of the
  language standard, with the legacy accessors that browsers implement. Each is a
  function or an object, hence truthy.
\<close>

definition object_prototype_keys :: "string list" where
  "object_prototype_keys =
     [''constructor'', ''hasOwnProperty'', ''isPrototypeOf'', ''propertyIsEnumerable'',
      ''toLocaleString'', ''toString'', ''valueOf'', ''__proto__'', ''__defineGetter__'',
      ''__defineSetter__'', ''__lookupGetter__'', ''__lookupSetter__'']"

text \<open>What the lookup can yield: a string of class names, or the inherited property of
  the given name, which is no class name at all.\<close>

datatype class_value = ClassNames string | Inherited string

text \<open>
  The lookup \<^verbatim>\<open>{ High: ..., Medium: ..., Low: ... }[location.criticality] || ...\<close>:
  the literal's own three keys first, then the prototype; the default applies only when
  neither has the key, since everything the lookup can find is truthy.
\<close>

definition criticalityColors :: "string \<Rightarrow> class_value" where
  "criticalityColors criticality =
     (case map_of [(''High'', ''text-red-500 bg-red-50 dark:bg-red-900/20''),
                   (''Medium'', ''text-yellow-500 bg-yellow-50 dark:bg-yellow-900/20''),
                   (''Low'', ''text-green-500 bg-green-50 dark:bg-green-900/20'')] criticality of
        Some c \<Rightarrow> ClassNames c
      | None \<Rightarrow>
          if criticality \<in> set object_prototype_keys then Inherited criticality
          else ClassNames ''text-gray-500 bg-gray-50 dark:bg-gray-900/20'')"

section \<open>The address form (\<^verbatim>\<open>AddressForm.tsx\<close>)\<close>

type_synonym address_data = "string \<rightharpoonup> string"

record address_form =
  isAutocompleteEnabled :: bool
  isValidating :: bool
  validationError :: "string option"

text \<open>Each handler returns the new component state and the calls of the \<^verbatim>\<open>onChange\<close>
  prop it made.\<close>

definition handleManualToggle :: "address_form \<Rightarrow> address_form \<times> address_data list" where
  "handleManualToggle st = (st\<lparr>isAutocompleteEnabled := \<not> isAutocompleteEnabled st\<rparr>, [])"

definition handleAutocompleteSelect ::
  "address_form \<Rightarrow> address_data \<Rightarrow> address_form \<times> address_data list" where
  "handleAutocompleteSelect st address = (st, [address])"



section \<open>The map (\<^verbatim>\<open>LocationMap\<close>)\<close>

text \<open>A position is \<^verbatim>\<open>[longitude, latitude]\<close>; a bounding box is built from its
  south-west and north-east corners and gives them back.\<close>

type_synonym 'n position = "'n \<times> 'n"

record 'n bounding_box =
  southWest :: "'n position"
  northEast :: "'n position"

text \<open>A feature of the data sources: the point and the properties the effect gives it.
  The marker icon and the popup are made by components outside the sources and carry no
  coordinate of their own; they are left out.\<close>

record 'n feature =
  point :: "'n position"
  feature_id :: "'n jsval"
  feature_name :: "'n jsval"
  coordinates :: "'n position"
  selected :: bool
  feature_criticality :: "'n jsval"

record 'n map_state =
  mapBounds :: "'n bounding_box option"
  dataSource :: "'n feature list"
  clusterSource :: "'n feature list"
  warned :: "'n jsobj list"

text \<open>After \<^verbatim>\<open>dataSource.clear()\<close> and \<^verbatim>\<open>clusterSource.clear()\<close>.\<close>

definition cleared :: "'n map_state" where
  "cleared = \<lparr>mapBounds = None, dataSource = [], clusterSource = [], warned = []\<rparr>"

text \<open>
  The body of \<^verbatim>\<open>locations.forEach\<close>. \<^verbatim>\<open>parseFloat\<close> belongs to the engine and is a
  parameter; \<open>None\<close> is its \<^verbatim>\<open>NaN\<close>, so \<^verbatim>\<open>isNaN(lon)\<close> is \<open>lon = None\<close>.
\<close>

definition add_location ::
  "('n jsval \<Rightarrow> 'n option) \<Rightarrow> 'n jsval \<Rightarrow> 'n::{zero,linorder,numeral,uminus} map_state
     \<Rightarrow> 'n jsobj \<Rightarrow> 'n map_state" where
  "add_location parseFloat selectedLocationId st location =
     (if falsy (get_prop location ''longitude'') \<or> falsy (get_prop location ''latitude'') then st
      else
        (case (parseFloat (get_prop location ''longitude''), parseFloat (get_prop location ''latitude'')) of
           (Some lon, Some lat) \<Rightarrow>
             if lon < - 180 \<or> lon > 180 \<or> lat < - 90 \<or> lat > 90
             then st\<lparr>warned := warned st @ [location]\<rparr>
             else
               (let bounds =
                      (case mapBounds st of
                         None \<Rightarrow> \<lparr>southWest = (lon, lat), northEast = (lon, lat)\<rparr>
                       | Some b \<Rightarrow>
                           \<lparr>southWest = (min (fst (southWest b)) lon, min (snd (southWest b)) lat),
                            northEast = (max (fst (northEast b)) lon, max (snd (northEast b)) lat)\<rparr>);
                    feature =
                      \<lparr>point = (lon, lat),
                       feature_id = get_prop location ''id'',
                       feature_name = get_prop location ''name'',
                       coordinates = (lon, lat),
                       selected = (get_prop location ''id'' = selectedLocationId),
                       feature_criticality = get_prop location ''criticality''\<rparr>
                in st\<lparr>mapBounds := Some bounds,
                      dataSource := dataSource st @ [feature],
                      clusterSource := clusterSource st @ [feature]\<rparr>)
         | _ \<Rightarrow> st\<lparr>warned := warned st @ [location]\<rparr>))"

text \<open>The effect that adds the location points: clear, then one step per location.\<close>

definition add_location_points ::
  "('n jsval \<Rightarrow> 'n option) \<Rightarrow> 'n jsval \<Rightarrow> 'n::{zero,linorder,numeral,uminus} jsobj list
     \<Rightarrow> 'n map_state" where
  "add_location_points parseFloat selectedLocationId locations =
     foldl (add_location parseFloat selectedLocationId) cleared locations"

text \<open>The bounds handed to \<^verbatim>\<open>setCamera\<close>, when the camera is fitted at all.\<close>

definition fitted_bounds ::
  "('n jsval \<Rightarrow> 'n option) \<Rightarrow> 'n jsval \<Rightarrow> 'n::{zero,linorder,numeral,uminus} jsobj list
     \<Rightarrow> 'n bounding_box option" where
  "fitted_bounds parseFloat selectedLocationId locations =
     (case mapBounds (add_location_points parseFloat selectedLocationId locations) of
        None \<Rightarrow> None
      | Some b \<Rightarrow>
          if length (filter (\<lambda>l. \<not> falsy (get_prop l ''longitude'') \<and> \<not> falsy (get_prop l ''latitude''))
                locations) > 0
          then Some b else None)"

section \<open>The claims' vocabulary\<close>

text \<open>
  The terms in which the specification speaks of the code, defined apart from the code
  they are compared with.
\<close>

subsection \<open>Filters\<close>

text \<open>A filter field is provided when it is present and not empty.\<close>

definition provided :: "filters option \<Rightarrow> string \<Rightarrow> string option" where
  "provided f k =
     (case opt_field f k of None \<Rightarrow> None | Some v \<Rightarrow> if v = [] then None else Some v)"

text \<open>One equality predicate for a provided field, none otherwise.\<close>

definition equality_for :: "filters option \<Rightarrow> string \<Rightarrow> predicate list" where
  "equality_for f col = (case provided f col of None \<Rightarrow> [] | Some v \<Rightarrow> [Eq col v])"

text \<open>The disjunction of one pattern match per column, in the backend's filter syntax.\<close>

definition search_disjunction :: "string list \<Rightarrow> string \<Rightarrow> predicate" where
  "search_disjunction cols s =
     Or (foldr (\<lambda>c acc. if acc = [] then ilike c s else ilike c s @ '','' @ acc) cols [])"

definition location_filter_contract :: "filters option \<Rightarrow> predicate list" where
  "location_filter_contract f =
     (case provided f ''search'' of
        None \<Rightarrow> []
      | Some s \<Rightarrow> [search_disjunction [''name'', ''address'', ''city'', ''state''] s]) @
     equality_for f ''state'' @ equality_for f ''city'' @
     equality_for f ''criticality'' @ equality_for f ''company_id''"

fun eq_on :: "string \<Rightarrow> predicate \<Rightarrow> bool" where
  "eq_on col (Eq c v) = (c = col)"
| "eq_on col (Or s) = False"

fun is_or :: "predicate \<Rightarrow> bool" where
  "is_or (Eq c v) = False"
| "is_or (Or s) = True"

subsection \<open>Sums\<close>

text \<open>The sum of a list of numbers, taken from left to right and starting from 0. No law
  of addition is assumed, so this is also what a sum of floating-point numbers is.\<close>

definition sum_from_left :: "'n::{zero,plus} list \<Rightarrow> 'n" where
  "sum_from_left xs = foldl (\<lambda>sum x. sum + x) 0 xs"

subsection \<open>Update payloads\<close>

text \<open>The record an update request carries to the backend.\<close>

definition update_payload :: "'n request \<Rightarrow> 'n jsobj" where
  "update_payload q = (case verb q of Update ob \<Rightarrow> ob | _ \<Rightarrow> Map.empty)"

subsection \<open>Coordinates\<close>

text \<open>A position within the ranges of longitude and latitude.\<close>

definition in_range :: "'n::{zero,linorder,numeral,uminus} position \<Rightarrow> bool" where
  "in_range p = (- 180 \<le> fst p \<and> fst p \<le> 180 \<and> - 90 \<le> snd p \<and> snd p \<le> 90)"

text \<open>The position a location's coordinates parse to, when both parse to a number.\<close>

definition parsed_position :: "('n jsval \<Rightarrow> 'n option) \<Rightarrow> 'n jsobj \<Rightarrow> 'n position option" where
  "parsed_position parseFloat l =
     (case parseFloat (get_prop l ''longitude'') of
        None \<Rightarrow> None
      | Some lon \<Rightarrow> (case parseFloat (get_prop l ''latitude'') of
                       None \<Rightarrow> None
                     | Some lat \<Rightarrow> Some (lon, lat)))"

text \<open>Both coordinates parse to numbers, the longitude within [-180, 180] and the latitude
  within [-90, 90].\<close>

definition valid_position ::
  "('n jsval \<Rightarrow> 'n option) \<Rightarrow> 'n::{zero,linorder,numeral,uminus} jsobj \<Rightarrow> bool" where
  "valid_position parseFloat l =
     (case parsed_position parseFloat l of None \<Rightarrow> False | Some p \<Rightarrow> in_range p)"

text \<open>A coordinate is missing when it is undefined, null or the empty string; a location
  has a bad coordinate when one is missing, does not parse to a number or is out of
  range.\<close>

fun missing :: "'n jsval \<Rightarrow> bool" where
  "missing JUndefined = True"
| "missing JNull = True"
| "missing (JStr s) = (s = [])"
| "missing v = False"

definition bad_coordinates ::
  "('n jsval \<Rightarrow> 'n option) \<Rightarrow> 'n::{zero,linorder,numeral,uminus} jsobj \<Rightarrow> bool" where
  "bad_coordinates parseFloat l =
     (missing (get_prop l ''longitude'') \<or> missing (get_prop l ''latitude'')
      \<or> \<not> valid_position parseFloat l)"

text \<open>A step that skips its location leaves the bounds and both data sources as they
  were.\<close>

definition same_map :: "'n map_state \<Rightarrow> 'n map_state \<Rightarrow> bool" where
  "same_map st' st =
     (mapBounds st' = mapBounds st \<and> dataSource st' = dataSource st
      \<and> clusterSource st' = clusterSource st)"

text \<open>What holds of the map after any number of steps over locations among \<open>ls\<close>: every
  feature is at an in-range position that one of the locations parses to, the two data
  sources hold the same features, and the bounds, once set, have in-range corners.\<close>

definition within_ranges ::
  "('n jsval \<Rightarrow> 'n option) \<Rightarrow> 'n::{zero,linorder,numeral,uminus} jsobj set \<Rightarrow> 'n map_state \<Rightarrow> bool" where
  "within_ranges parseFloat ls st =
     ((\<forall>p\<in>set (dataSource st). in_range (point p) \<and> coordinates p = point p
          \<and> (\<exists>l\<in>ls. parsed_position parseFloat l = Some (point p)))
      \<and> clusterSource st = dataSource st
      \<and> (\<forall>b. mapBounds st = Some b \<longrightarrow> in_range (southWest b) \<and> in_range (northEast b)))"

section \<open>Example inputs\<close>

definition austin_filters :: filters where
  "austin_filters = [''search'' \<mapsto> ''au'', ''state'' \<mapsto> ''TX'', ''city'' \<mapsto> []]"

definition three_circuits :: "int circuit_row list" where
  "three_circuits =
     [\<lparr>status = ''Active'', monthlycost = Some 100\<rparr>,
      \<lparr>status = ''Inactive'', monthlycost = None\<rparr>,
      \<lparr>status = ''Pending'', monthlycost = Some 50\<rparr>]"

definition three_circuits_db :: "(unit, int circuit_row list) backend" where
  "three_circuits_db q = \<lparr>data = Some three_circuits, error = None\<rparr>"

definition acme :: "unit jsobj" where
  "acme = [''name'' \<mapsto> JStr ''Acme'', ''phone'' \<mapsto> JStr ''555-0100'']"

text \<open>A backend that refuses every request, one that answers every request with the same
  row, and one that finds no row on a read and returns the row it is asked to insert.\<close>

definition failing_db :: "('n, 'd) backend" where
  "failing_db q = \<lparr>data = None, error = Some (BackendError ''permission denied'')\<rparr>"

definition row_db :: "(unit, unit jsobj) backend" where
  "row_db q = \<lparr>data = Some acme, error = None\<rparr>"

definition new_user_db :: "('n, 'n jsobj) backend" where
  "new_user_db q =
     (case verb q of
        Insert (r # rs) \<Rightarrow> \<lparr>data = Some r, error = None\<rparr>
      | _ \<Rightarrow> \<lparr>data = None, error = None\<rparr>)"

text \<open>No row on a read, and a refusal of every insert.\<close>

definition insert_failing_db :: "('n, 'd) backend" where
  "insert_failing_db q =
     (case verb q of
        Insert rows \<Rightarrow> \<lparr>data = None, error = Some (BackendError ''permission denied'')\<rparr>
      | _ \<Rightarrow> \<lparr>data = None, error = None\<rparr>)"

definition env_db :: "(unit, env_row) backend" where
  "env_db q = \<lparr>data = Some \<lparr>env_value = Some ''key123''\<rparr>, error = None\<rparr>"

definition signed_in :: auth_response where
  "signed_in = \<lparr>auth_user = Some \<lparr>uid = ''u1''\<rparr>, auth_error = None\<rparr>"

definition signed_out_error :: auth_response where
  "signed_out_error =
     \<lparr>auth_user = None, auth_error = Some (BackendError ''session expired'')\<rparr>"

text \<open>A form as submitted, a printer of the few numbers of the examples, a geocoder that
  resolves, and a backend that returns the row it is asked to write.\<close>

definition austin_form :: "int jsobj" where
  "austin_form =
     [''name'' \<mapsto> JStr ''HQ'', ''address'' \<mapsto> JStr ''1 Main St'', ''city'' \<mapsto> JStr ''Austin'',
      ''state'' \<mapsto> JStr ''TX'', ''zip_code'' \<mapsto> JStr ''78701'', ''criticality'' \<mapsto> JStr ''High'']"

definition print_table :: "int \<Rightarrow> string" where
  "print_table n =
     (case map_of [(0, ''0''), (30, ''30''), (- 97, ''-97'')] n of Some s \<Rightarrow> s | None \<Rightarrow> ''?'')"

definition austin_geocoder :: "string \<Rightarrow> js_error + int jsobj option" where
  "austin_geocoder a = Inr (Some [''longitude'' \<mapsto> JNum (- 97), ''latitude'' \<mapsto> JNum 30])"

definition saving_db :: "(int, int jsobj) backend" where
  "saving_db q = \<lparr>data = Some (update_payload q), error = None\<rparr>"

text \<open>A location whose criticality is none of the three levels.\<close>

definition critical_site :: "int jsobj" where
  "critical_site =
     [''id'' \<mapsto> JStr ''l9'', ''name'' \<mapsto> JStr ''Depot'', ''criticality'' \<mapsto> JStr ''Critical'']"

definition critical_site_db :: "(unit, int jsobj list) backend" where
  "critical_site_db q = \<lparr>data = Some [critical_site], error = None\<rparr>"

text \<open>A \<^verbatim>\<open>parseFloat\<close> on the few strings of the examples, and three locations: one out of
  range, one in range, one without coordinates.\<close>

definition parse_table :: "int jsval \<Rightarrow> int option" where
  "parse_table v =
     (case v of
        JStr s \<Rightarrow> map_of [(''200'', 200), (''10'', 10), (''20'', 20), (''-97'', - 97), (''30'', 30)] s
      | JNum n \<Rightarrow> Some n
      | _ \<Rightarrow> None)"

definition far_site :: "int jsobj" where
  "far_site = [''id'' \<mapsto> JStr ''l1'', ''longitude'' \<mapsto> JStr ''200'', ''latitude'' \<mapsto> JStr ''10'']"

definition near_site :: "int jsobj" where
  "near_site = [''id'' \<mapsto> JStr ''l2'', ''longitude'' \<mapsto> JStr ''20'', ''latitude'' \<mapsto> JStr ''10'']"

definition unplaced_site :: "int jsobj" where
  "unplaced_site = [''id'' \<mapsto> JStr ''l3'', ''longitude'' \<mapsto> JNull]"

section \<open>Awaiting a request\<close>

lemma run_error: "error (db q) = Some e \<Longrightarrow> run db q = Inl (Thrown e)"
  by (simp add: run_def await_def throw_or_data_def)

lemma run_ok: "error (db q) = None \<Longrightarrow> run db q = Inr (data (db q))"
  by (simp add: run_def await_def throw_or_data_def)

lemma run_cases:
  "run db q = (case error (db q) of Some e \<Rightarrow> Inl (Thrown e) | None \<Rightarrow> Inr (data (db q)))"
  by (simp add: run_error run_ok split: option.splits)

section \<open>The predicates of \<^verbatim>\<open>getLocations\<close>\<close>

lemma when_truthy_provided:
  "when_truthy (opt_field f k) g q = (case provided f k of None \<Rightarrow> q | Some v \<Rightarrow> g v q)"
  by (simp add: provided_def when_truthy_def split: option.splits)

lemma ilike_nonempty: "ilike c s \<noteq> []"
  by (simp add: ilike_def)

lemma search_disjunction_four:
  "search_disjunction [a, b, c, d] s =
     Or (ilike a s @ '','' @ ilike b s @ '','' @ ilike c s @ '','' @ ilike d s)"
  by (simp add: search_disjunction_def ilike_nonempty)

lemma preds_getLocations_query:
  "preds (getLocations_query f :: 'n request) = location_filter_contract f"
  by (simp add: getLocations_query_def location_filter_contract_def equality_for_def
      when_truthy_provided search_disjunction_four Let_def select_def from_table_def
      or_filter_def eq_def order_def throwOnError_def split: option.splits)

lemma contract_equalities:
  "filter (eq_on ''state'') (location_filter_contract f) = equality_for f ''state''"
  "filter (eq_on ''city'') (location_filter_contract f) = equality_for f ''city''"
  "filter (eq_on ''criticality'') (location_filter_contract f) = equality_for f ''criticality''"
  "filter (eq_on ''company_id'') (location_filter_contract f) = equality_for f ''company_id''"
  by (simp_all add: location_filter_contract_def equality_for_def search_disjunction_def
      split: option.splits)

lemma contract_search:
  "filter is_or (location_filter_contract f) =
     (case provided f ''search'' of
        None \<Rightarrow> []
      | Some s \<Rightarrow> [Or (''name.ilike.%'' @ s @ ''%,address.ilike.%'' @ s @
                       ''%,city.ilike.%'' @ s @ ''%,state.ilike.%'' @ s @ ''%'')])"
  by (simp add: location_filter_contract_def equality_for_def search_disjunction_four ilike_def
      split: option.splits)

lemma contract_length:
  "length (location_filter_contract f) =
     length (filter (\<lambda>k. provided f k \<noteq> None)
       [''search'', ''state'', ''city'', ''criticality'', ''company_id''])"
  by (simp add: location_filter_contract_def equality_for_def split: option.splits)

text \<open>
  C5. The predicates of the query that \<^verbatim>\<open>getLocations\<close> sends are those of the filter
  contract, for every filter object and for none: each of \<open>state\<close>, \<open>city\<close>,
  \<open>criticality\<close> and \<open>company_id\<close> that is provided gives exactly one equality
  predicate on its column, a provided \<open>search\<close> gives one \<open>ilike\<close> disjunction over
  \<open>name\<close>, \<open>address\<close>, \<open>city\<close> and \<open>state\<close>, and there are as many predicates as
  provided fields, so that an absent or empty field gives none.
\<close>

theorem getLocations_filter_predicates:
  "preds (getLocations_query f :: 'n request) = location_filter_contract f
   \<and> filter (eq_on ''state'') (preds (getLocations_query f :: 'n request))
       = equality_for f ''state''
   \<and> filter (eq_on ''city'') (preds (getLocations_query f :: 'n request))
       = equality_for f ''city''
   \<and> filter (eq_on ''criticality'') (preds (getLocations_query f :: 'n request))
       = equality_for f ''criticality''
   \<and> filter (eq_on ''company_id'') (preds (getLocations_query f :: 'n request))
       = equality_for f ''company_id''
   \<and> filter is_or (preds (getLocations_query f :: 'n request))
       = (case provided f ''search'' of
            None \<Rightarrow> []
          | Some s \<Rightarrow> [Or (''name.ilike.%'' @ s @ ''%,address.ilike.%'' @ s @
                           ''%,city.ilike.%'' @ s @ ''%,state.ilike.%'' @ s @ ''%'')])
   \<and> length (preds (getLocations_query f :: 'n request))
       = length (filter (\<lambda>k. provided f k \<noteq> None)
           [''search'', ''state'', ''city'', ''criticality'', ''company_id''])"
  unfolding preds_getLocations_query
  using contract_equalities [of f] contract_search [of f] contract_length [of f]
  by simp

theorem getLocations_filter_predicates_witness:
  "preds (getLocations_query (Some austin_filters) :: unit request)
     = [Or ''name.ilike.%au%,address.ilike.%au%,city.ilike.%au%,state.ilike.%au%'',
        Eq ''state'' ''TX'']
   \<and> filter (eq_on ''city'') (preds (getLocations_query (Some austin_filters) :: unit request)) = []"
proof -
  have p: "provided (Some austin_filters) ''search'' = Some ''au''"
    "provided (Some austin_filters) ''state'' = Some ''TX''"
    "provided (Some austin_filters) ''city'' = None"
    "provided (Some austin_filters) ''criticality'' = None"
    "provided (Some austin_filters) ''company_id'' = None"
    by (simp_all add: provided_def opt_field_def austin_filters_def)
  have c: "location_filter_contract (Some austin_filters)
      = [Or ''name.ilike.%au%,address.ilike.%au%,city.ilike.%au%,state.ilike.%au%'',
         Eq ''state'' ''TX'']"
    by (simp add: location_filter_contract_def equality_for_def p search_disjunction_four
        ilike_def)
  show ?thesis
    using getLocations_filter_predicates [of "Some austin_filters", where ?'n = unit]
    by (simp add: c equality_for_def p)
qed

section \<open>The aggregates of \<^verbatim>\<open>getDashboardStats\<close>\<close>

lemma or_zero_eq: "or_zero c = (case c of None \<Rightarrow> 0 | Some v \<Rightarrow> v)"
  by (simp add: or_zero_def split: option.splits)

lemma total_cost_sum_from_left:
  "foldl (\<lambda>sum c. sum + or_zero (monthlycost c)) 0 circuits
     = sum_from_left (map (\<lambda>c. case monthlycost c of None \<Rightarrow> 0 | Some v \<Rightarrow> v) circuits)"
  by (simp add: sum_from_left_def foldl_map or_zero_eq)

text \<open>Where addition is associative with unit 0, the sum from the left is the sum.\<close>

lemma foldl_plus_sum_list:
  fixes a :: "'n::monoid_add"
  shows "foldl (\<lambda>s x. s + x) a xs = a + sum_list xs"
  by (induction xs arbitrary: a) (simp_all add: add.assoc)

lemma sum_from_left_sum_list:
  fixes xs :: "'n::monoid_add list"
  shows "sum_from_left xs = sum_list xs"
  by (simp add: sum_from_left_def foldl_plus_sum_list)

lemma length_filter_count_list:
  "length (filter (\<lambda>c. g c = x) cs) = count_list (map g cs) x"
  by (induction cs) simp_all

lemma two_status_counts:
  "length (filter (\<lambda>c. status c = ''Active'') cs)
     + length (filter (\<lambda>c. status c = ''Inactive'') cs)
   = length (filter (\<lambda>c. status c = ''Active'' \<or> status c = ''Inactive'') cs)"
  by (induction cs) simp_all

lemma length_filter_eq_length:
  "(length (filter P cs) = length cs) = (\<forall>c\<in>set cs. P c)"
  by (metis filter_id_conv length_filter_less linorder_neq_iff filter_True)

lemma getDashboardStats_success:
  "db (getDashboardStats_query f) = \<lparr>data = Some circuits, error = None\<rparr>
   \<Longrightarrow> getDashboardStats db f = Inr (dashboard_stats_of circuits)"
  by (simp add: getDashboardStats_def run_cases)

text \<open>
  C9. When the backend answers the statistics query with the rows \<open>circuits\<close>,
  \<^verbatim>\<open>getDashboardStats\<close> returns: as \<open>totalCircuits\<close> their number; as
  \<open>activeCircuits\<close> and \<open>inactiveCircuits\<close> the number of rows whose status is exactly
  \<open>Active\<close> and exactly \<open>Inactive\<close>, whose sum is at most \<open>totalCircuits\<close> and equals it
  only when every row has one of the two statuses; as \<open>totalMonthlyCost\<close> the sum of the
  monthly costs in the order of the rows, from 0, a null or missing cost counting as 0.
  Numbers are any type with a zero and an addition, of which no law is assumed.
\<close>

theorem getDashboardStats_aggregates:
  fixes db :: "('m, 'n::{zero,plus} circuit_row list) backend"
  assumes "db (getDashboardStats_query f) = \<lparr>data = Some circuits, error = None\<rparr>"
  shows "\<exists>s. getDashboardStats db f = Inr s
     \<and> totalCircuits s = length circuits
     \<and> activeCircuits s = count_list (map status circuits) ''Active''
     \<and> inactiveCircuits s = count_list (map status circuits) ''Inactive''
     \<and> activeCircuits s + inactiveCircuits s \<le> totalCircuits s
     \<and> (activeCircuits s + inactiveCircuits s = totalCircuits s
          \<longleftrightarrow> (\<forall>c\<in>set circuits. status c = ''Active'' \<or> status c = ''Inactive''))
     \<and> totalMonthlyCost s
          = sum_from_left
              (map (\<lambda>c. case monthlycost c of None \<Rightarrow> 0 | Some v \<Rightarrow> v) circuits)"
proof -
  have cost: "totalMonthlyCost (dashboard_stats_of circuits)
      = sum_from_left
          (map (\<lambda>c. case monthlycost c of None \<Rightarrow> 0 | Some v \<Rightarrow> v) circuits)"
    by (simp add: dashboard_stats_of_def total_cost_sum_from_left)
  show ?thesis
    unfolding getDashboardStats_success [of db f circuits, OF assms]
    apply (rule exI [of _ "dashboard_stats_of circuits"])
    apply (simp only: cost)
    apply (simp add: dashboard_stats_of_def length_filter_count_list [symmetric]
        two_status_counts length_filter_eq_length)
    done
qed

theorem getDashboardStats_aggregates_witness:
  "three_circuits_db (getDashboardStats_query None)
     = \<lparr>data = Some three_circuits, error = None\<rparr>
   \<and> getDashboardStats three_circuits_db None
       = Inr \<lparr>totalCircuits = 3, activeCircuits = 1, inactiveCircuits = 1,
              totalMonthlyCost = 150\<rparr>"
proof -
  have h: "three_circuits_db (getDashboardStats_query None)
      = \<lparr>data = Some three_circuits, error = None\<rparr>"
    by (simp add: three_circuits_db_def)
  from getDashboardStats_aggregates [of three_circuits_db None three_circuits, OF h]
  obtain s where
    s: "getDashboardStats three_circuits_db None = Inr s"
      "totalCircuits s = length three_circuits"
      "activeCircuits s = count_list (map status three_circuits) ''Active''"
      "inactiveCircuits s = count_list (map status three_circuits) ''Inactive''"
      "totalMonthlyCost s
         = sum_from_left
             (map (\<lambda>c. case monthlycost c of None \<Rightarrow> 0 | Some v \<Rightarrow> v) three_circuits)"
    by blast
  have "s = \<lparr>totalCircuits = 3, activeCircuits = 1, inactiveCircuits = 1,
             totalMonthlyCost = 150\<rparr>"
    using s(2-5) by (cases s) (simp add: three_circuits_def sum_from_left_def)
  with h s(1) show ?thesis by simp
qed

section \<open>What the API functions send and return\<close>

lemmas simple_api_defs =
  getCompanies_def getCompany_def createCompany_def updateCompany_def updateLocation_def
  getLocations_def getLocation_def createLocation_def getCircuits_def getCircuit_def
  createCircuit_def updateCircuit_def getUserProfiles_def updateUserRole_def

lemma update_payload_update:
  "update_payload (single (select c (eq k i (update ob q)))) = ob"
  by (simp add: update_payload_def single_def select_def eq_def update_def)

lemma require_user_error: "auth_error a = Some e \<Longrightarrow> require_user a = Inl (Thrown e)"
  by (simp add: require_user_def)

lemma require_user_signed_in: "require_user signed_in = Inr \<lparr>uid = ''u1''\<rparr>"
  by (simp add: require_user_def signed_in_def)

lemma getCurrentUserProfile_auth_error:
  "auth_error a = Some e \<Longrightarrow> getCurrentUserProfile a db = Inl (Thrown e)"
  by (simp add: getCurrentUserProfile_def require_user_error)

lemma getCurrentUserProfile_cases:
  "require_user auth = Inr u \<Longrightarrow>
   getCurrentUserProfile auth db =
     (case error (db (getCurrentUserProfile_select u)) of
        Some e \<Rightarrow> Inl (Error ''Failed to fetch user profile'')
      | None \<Rightarrow>
          (case data (db (getCurrentUserProfile_select u)) of
             Some profile \<Rightarrow> Inr (Some profile)
           | None \<Rightarrow>
               (case error (db (getCurrentUserProfile_insert u)) of
                  Some e \<Rightarrow> Inl (Error ''Failed to create user profile'')
                | None \<Rightarrow> Inr (data (db (getCurrentUserProfile_insert u))))))"
  by (simp add: getCurrentUserProfile_def await_def getCurrentUserProfile_select_def
      getCurrentUserProfile_insert_def single_def maybeSingle_def select_def eq_def
      insert_rows_def from_table_def split: option.splits)

lemma verb_profile_requests:
  "verb (getCurrentUserProfile_select u :: 'n request) = Select"
  "verb (getCurrentUserProfile_insert u :: 'n request)
     = Insert [[''user_id'' \<mapsto> JStr (uid u), ''role'' \<mapsto> JStr ''viewer'']]"
  by (simp_all add: getCurrentUserProfile_select_def getCurrentUserProfile_insert_def
      maybeSingle_def single_def select_def eq_def insert_rows_def from_table_def)

text \<open>
  C1, as the code has it. The claim that the client supplies neither timestamp fails: a
  company record without \<open>updated_at\<close> goes out with \<open>updated_at\<close> set to the client's
  clock reading.
\<close>

theorem update_timestamp_counterexample:
  "acme ''updated_at'' = None
   \<and> update_payload (updateCompany_query ''2024-05-01T12:00:00.000Z'' ''c1'' acme) ''updated_at''
       = Some (JStr ''2024-05-01T12:00:00.000Z'')"
  by (simp add: acme_def updateCompany_query_def with_updated_at_def update_payload_update)

text \<open>
  C1, amended. The record sent by \<^verbatim>\<open>updateCompany\<close>, \<^verbatim>\<open>updateLocation\<close> and
  \<^verbatim>\<open>updateCircuit\<close> is the caller's record with \<open>updated_at\<close> set to the client's clock
  reading; \<open>created_at\<close> is sent exactly as the caller's record has it, so it is not
  sent when the record carries none.
\<close>

theorem update_payload_timestamps:
  "update_payload (updateCompany_query now i r) = r(''updated_at'' \<mapsto> JStr now)
   \<and> update_payload (updateCompany_query now i r) ''created_at'' = r ''created_at''
   \<and> update_payload (updateLocation_query now i r) = r(''updated_at'' \<mapsto> JStr now)
   \<and> update_payload (updateLocation_query now i r) ''created_at'' = r ''created_at''
   \<and> update_payload (updateCircuit_query now i r) = r(''updated_at'' \<mapsto> JStr now)
   \<and> update_payload (updateCircuit_query now i r) ''created_at'' = r ''created_at''"
  by (simp add: updateCompany_query_def updateLocation_query_def updateCircuit_query_def
      with_updated_at_def update_payload_update)

text \<open>
  C2, as the code has it. The claim that no API function swallows a backend error fails at
  \<^verbatim>\<open>getEnvironmentVariable\<close>: the backend refuses the request and the function
  returns null.
\<close>

theorem swallowed_error_counterexample:
  "error ((failing_db :: (unit, env_row) backend) (getEnvironmentVariable_query ''AZURE_MAPS_KEY''))
     = Some (BackendError ''permission denied'')
   \<and> getEnvironmentVariable (failing_db :: (unit, env_row) backend) ''AZURE_MAPS_KEY'' = Inr None"
  by (simp add: failing_db_def getEnvironmentVariable_def getEnvironmentVariable_try_def
      run_cases)

text \<open>
  C2, amended. Every API function other than \<^verbatim>\<open>getEnvironmentVariable\<close> rejects when
  the backend reports an error on a request it awaits (or on the lookup of the user):
  with the backend's own error, except \<^verbatim>\<open>getCurrentUserProfile\<close>, which rejects a
  failed read or insert of the profile with an error of its own.
  \<^verbatim>\<open>getEnvironmentVariable\<close> catches the error and returns null.
\<close>

theorem api_rejects_on_backend_error:
  fixes db db2 :: "('n, 'd) backend"
    and sdb :: "('n, 'c::{zero,plus} circuit_row list) backend"
    and edb :: "('n, env_row) backend"
  shows
  "(error (db (getCompanies_query f)) = Some e \<longrightarrow> getCompanies db f = Inl (Thrown e))
 \<and> (error (db (getCompany_query i)) = Some e \<longrightarrow> getCompany db i = Inl (Thrown e))
 \<and> (error (db (createCompany_query r)) = Some e \<longrightarrow> createCompany db r = Inl (Thrown e))
 \<and> (error (db (updateCompany_query now i r)) = Some e
      \<longrightarrow> updateCompany db now i r = Inl (Thrown e))
 \<and> (error (db (updateLocation_query now i r)) = Some e
      \<longrightarrow> updateLocation db now i r = Inl (Thrown e))
 \<and> (error (db (getLocations_query f)) = Some e \<longrightarrow> getLocations db f = Inl (Thrown e))
 \<and> (error (db (getLocation_query i)) = Some e \<longrightarrow> getLocation db i = Inl (Thrown e))
 \<and> (error (db (createLocation_query r)) = Some e \<longrightarrow> createLocation db r = Inl (Thrown e))
 \<and> (error (db (getCircuits_query f)) = Some e \<longrightarrow> getCircuits db f = Inl (Thrown e))
 \<and> (error (db (getCircuit_query i)) = Some e \<longrightarrow> getCircuit db i = Inl (Thrown e))
 \<and> (error (db (createCircuit_query r)) = Some e \<longrightarrow> createCircuit db r = Inl (Thrown e))
 \<and> (error (db (updateCircuit_query now i r)) = Some e
      \<longrightarrow> updateCircuit db now i r = Inl (Thrown e))
 \<and> (auth_error auth0 = Some e \<longrightarrow> updateUserProfile auth0 db now r = Inl (Thrown e))
 \<and> (require_user auth = Inr u \<and> error (db (updateUserProfile_query now u r)) = Some e
      \<longrightarrow> updateUserProfile auth db now r = Inl (Thrown e))
 \<and> (error (sdb (getDashboardStats_query f)) = Some e
      \<longrightarrow> getDashboardStats sdb f = Inl (Thrown e))
 \<and> (auth_error auth0 = Some e \<longrightarrow> getCurrentUserProfile auth0 db = Inl (Thrown e))
 \<and> (require_user auth = Inr u \<and> error (db (getCurrentUserProfile_select u)) = Some e
      \<longrightarrow> getCurrentUserProfile auth db = Inl (Error ''Failed to fetch user profile''))
 \<and> (require_user auth = Inr u
      \<and> db2 (getCurrentUserProfile_select u) = \<lparr>data = None, error = None\<rparr>
      \<and> error (db2 (getCurrentUserProfile_insert u)) = Some e
      \<longrightarrow> getCurrentUserProfile auth db2 = Inl (Error ''Failed to create user profile''))
 \<and> (error (db getUserProfiles_query) = Some e \<longrightarrow> getUserProfiles db = Inl (Thrown e))
 \<and> (error (db (updateUserRole_query i role)) = Some e
      \<longrightarrow> updateUserRole db i role = Inl (Thrown e))
 \<and> (error (edb (getEnvironmentVariable_query key)) = Some e
      \<longrightarrow> getEnvironmentVariable edb key = Inr None)"
  by (simp add: simple_api_defs run_error updateUserProfile_def getDashboardStats_def
      require_user_error getCurrentUserProfile_cases getCurrentUserProfile_auth_error
      getEnvironmentVariable_def getEnvironmentVariable_try_def)

theorem api_rejects_on_backend_error_witness:
  "getCompanies (failing_db :: (unit, unit) backend) None
     = Inl (Thrown (BackendError ''permission denied''))
   \<and> updateCompany (failing_db :: (unit, unit) backend) ''t'' ''c1'' acme
     = Inl (Thrown (BackendError ''permission denied''))
   \<and> updateUserProfile signed_out_error (failing_db :: (unit, unit) backend) ''t'' acme
     = Inl (Thrown (BackendError ''session expired''))
   \<and> updateUserProfile signed_in (failing_db :: (unit, unit) backend) ''t'' acme
     = Inl (Thrown (BackendError ''permission denied''))
   \<and> getDashboardStats (failing_db :: (unit, int circuit_row list) backend) None
     = Inl (Thrown (BackendError ''permission denied''))
   \<and> getCurrentUserProfile signed_out_error (failing_db :: (unit, unit) backend)
     = Inl (Thrown (BackendError ''session expired''))
   \<and> getCurrentUserProfile signed_in (failing_db :: (unit, unit) backend)
     = Inl (Error ''Failed to fetch user profile'')
   \<and> getCurrentUserProfile signed_in (insert_failing_db :: (unit, unit) backend)
     = Inl (Error ''Failed to create user profile'')
   \<and> getEnvironmentVariable (failing_db :: (unit, env_row) backend) ''AZURE_MAPS_KEY'' = Inr None"
proof -
  have f: "\<And>q. error ((failing_db :: (unit, 'x) backend) q)
      = Some (BackendError ''permission denied'')"
    by (simp add: failing_db_def)
  have i: "(insert_failing_db :: (unit, unit) backend)
        (getCurrentUserProfile_select \<lparr>uid = ''u1''\<rparr>) = \<lparr>data = None, error = None\<rparr>"
    "error ((insert_failing_db :: (unit, unit) backend)
        (getCurrentUserProfile_insert \<lparr>uid = ''u1''\<rparr>))
       = Some (BackendError ''permission denied'')"
    by (simp_all add: insert_failing_db_def verb_profile_requests)
  have o: "auth_error signed_out_error = Some (BackendError ''session expired'')"
    by (simp add: signed_out_error_def)
  show ?thesis
    using api_rejects_on_backend_error [of "failing_db :: (unit, unit) backend" None
        "BackendError ''permission denied''" "''c1''" acme "''t''" signed_out_error signed_in
        "\<lparr>uid = ''u1''\<rparr>" "failing_db :: (unit, int circuit_row list) backend"
        "insert_failing_db :: (unit, unit) backend" Viewer
        "failing_db :: (unit, env_row) backend" "''AZURE_MAPS_KEY''"]
      api_rejects_on_backend_error [of "failing_db :: (unit, unit) backend" None
        "BackendError ''session expired''" "''c1''" acme "''t''" signed_out_error signed_in
        "\<lparr>uid = ''u1''\<rparr>" "failing_db :: (unit, int circuit_row list) backend"
        "insert_failing_db :: (unit, unit) backend" Viewer
        "failing_db :: (unit, env_row) backend" "''AZURE_MAPS_KEY''"]
    by (simp add: f i o require_user_signed_in)
qed

text \<open>
  C3, as the code has it. The claim that no API function counts or sums fetched rows in
  process fails at \<^verbatim>\<open>getDashboardStats\<close>: the query it sends carries no predicate and no
  aggregate, the backend answers with three rows, and the function returns the number of
  rows, two counts by status and a sum.
\<close>

theorem local_aggregation_counterexample:
  "data (three_circuits_db (getDashboardStats_query None)) = Some three_circuits
   \<and> preds (getDashboardStats_query None :: unit request) = []
   \<and> getDashboardStats three_circuits_db None
       = Inr \<lparr>totalCircuits = 3, activeCircuits = 1, inactiveCircuits = 1,
              totalMonthlyCost = 150\<rparr>"
  by (simp add: getDashboardStats_def run_cases three_circuits_db_def dashboard_stats_of_def
      three_circuits_def or_zero_def getDashboardStats_query_def Let_def when_truthy_def
      opt_field_def select_def from_table_def)

text \<open>
  C3, amended. Every API function other than \<^verbatim>\<open>getDashboardStats\<close> hands the
  backend's data on as it came: the data of the awaited response, of which
  \<^verbatim>\<open>getEnvironmentVariable\<close> returns the \<open>value\<close> property. \<^verbatim>\<open>getDashboardStats\<close>
  computes its four numbers in process from the fetched rows: their number, the number of
  rows with status \<open>Active\<close>, the number with status \<open>Inactive\<close>, and the sum of the costs
  from left to right.
\<close>

theorem api_returns_backend_data:
  fixes db db2 :: "('n, 'd) backend"
    and sdb :: "('n, 'c::{zero,plus} circuit_row list) backend"
    and edb :: "('n, env_row) backend"
  shows
  "(error (db (getCompanies_query f)) = None
      \<longrightarrow> getCompanies db f = Inr (data (db (getCompanies_query f))))
 \<and> (error (db (getCompany_query i)) = None
      \<longrightarrow> getCompany db i = Inr (data (db (getCompany_query i))))
 \<and> (error (db (createCompany_query r)) = None
      \<longrightarrow> createCompany db r = Inr (data (db (createCompany_query r))))
 \<and> (error (db (updateCompany_query now i r)) = None
      \<longrightarrow> updateCompany db now i r = Inr (data (db (updateCompany_query now i r))))
 \<and> (error (db (updateLocation_query now i r)) = None
      \<longrightarrow> updateLocation db now i r = Inr (data (db (updateLocation_query now i r))))
 \<and> (error (db (getLocations_query f)) = None
      \<longrightarrow> getLocations db f = Inr (data (db (getLocations_query f))))
 \<and> (error (db (getLocation_query i)) = None
      \<longrightarrow> getLocation db i = Inr (data (db (getLocation_query i))))
 \<and> (error (db (createLocation_query r)) = None
      \<longrightarrow> createLocation db r = Inr (data (db (createLocation_query r))))
 \<and> (error (db (getCircuits_query f)) = None
      \<longrightarrow> getCircuits db f = Inr (data (db (getCircuits_query f))))
 \<and> (error (db (getCircuit_query i)) = None
      \<longrightarrow> getCircuit db i = Inr (data (db (getCircuit_query i))))
 \<and> (error (db (createCircuit_query r)) = None
      \<longrightarrow> createCircuit db r = Inr (data (db (createCircuit_query r))))
 \<and> (error (db (updateCircuit_query now i r)) = None
      \<longrightarrow> updateCircuit db now i r = Inr (data (db (updateCircuit_query now i r))))
 \<and> (require_user auth = Inr u \<and> error (db (updateUserProfile_query now u r)) = None
      \<longrightarrow> updateUserProfile auth db now r = Inr (data (db (updateUserProfile_query now u r))))
 \<and> (require_user auth = Inr u
      \<and> db (getCurrentUserProfile_select u) = \<lparr>data = Some p, error = None\<rparr>
      \<longrightarrow> getCurrentUserProfile auth db = Inr (Some p))
 \<and> (require_user auth = Inr u
      \<and> db2 (getCurrentUserProfile_select u) = \<lparr>data = None, error = None\<rparr>
      \<and> error (db2 (getCurrentUserProfile_insert u)) = None
      \<longrightarrow> getCurrentUserProfile auth db2 = Inr (data (db2 (getCurrentUserProfile_insert u))))
 \<and> (error (db getUserProfiles_query) = None
      \<longrightarrow> getUserProfiles db = Inr (data (db getUserProfiles_query)))
 \<and> (error (db (updateUserRole_query i role)) = None
      \<longrightarrow> updateUserRole db i role = Inr (data (db (updateUserRole_query i role))))
 \<and> (error (edb (getEnvironmentVariable_query key)) = None
      \<longrightarrow> getEnvironmentVariable edb key
            = Inr (value_or_null (data (edb (getEnvironmentVariable_query key)))))
 \<and> (sdb (getDashboardStats_query f) = \<lparr>data = Some circuits, error = None\<rparr>
      \<longrightarrow> getDashboardStats sdb f
            = Inr \<lparr>totalCircuits = length circuits,
                   activeCircuits = length (filter (\<lambda>c. status c = ''Active'') circuits),
                   inactiveCircuits = length (filter (\<lambda>c. status c = ''Inactive'') circuits),
                   totalMonthlyCost
                     = foldl (\<lambda>sum c. sum + or_zero (monthlycost c)) 0 circuits\<rparr>)"
  by (simp add: simple_api_defs run_ok updateUserProfile_def getDashboardStats_def
      getCurrentUserProfile_cases getEnvironmentVariable_def getEnvironmentVariable_try_def
      dashboard_stats_of_def)

theorem api_returns_backend_data_witness:
  "getCompanies row_db None = Inr (Some acme)
   \<and> updateCompany row_db ''t'' ''c1'' acme = Inr (Some acme)
   \<and> updateUserProfile signed_in row_db ''t'' acme = Inr (Some acme)
   \<and> getCurrentUserProfile signed_in row_db = Inr (Some acme)
   \<and> getCurrentUserProfile signed_in (new_user_db :: (unit, unit jsobj) backend)
       = Inr (Some [''user_id'' \<mapsto> JStr ''u1'', ''role'' \<mapsto> JStr ''viewer''])
   \<and> getEnvironmentVariable env_db ''AZURE_MAPS_KEY'' = Inr (Some ''key123'')
   \<and> getDashboardStats three_circuits_db None
       = Inr \<lparr>totalCircuits = 3, activeCircuits = 1, inactiveCircuits = 1,
              totalMonthlyCost = 150\<rparr>"
proof -
  have r: "\<And>q. row_db q = \<lparr>data = Some acme, error = None\<rparr>"
    by (simp add: row_db_def)
  have n: "(new_user_db :: (unit, unit jsobj) backend)
        (getCurrentUserProfile_select \<lparr>uid = ''u1''\<rparr>) = \<lparr>data = None, error = None\<rparr>"
    "(new_user_db :: (unit, unit jsobj) backend) (getCurrentUserProfile_insert \<lparr>uid = ''u1''\<rparr>)
       = \<lparr>data = Some [''user_id'' \<mapsto> JStr ''u1'', ''role'' \<mapsto> JStr ''viewer''], error = None\<rparr>"
    by (simp_all add: new_user_db_def verb_profile_requests)
  have e: "\<And>q. env_db q = \<lparr>data = Some \<lparr>env_value = Some ''key123''\<rparr>, error = None\<rparr>"
    by (simp add: env_db_def)
  have s: "\<And>q. three_circuits_db q = \<lparr>data = Some three_circuits, error = None\<rparr>"
    by (simp add: three_circuits_db_def)
  show ?thesis
    using api_returns_backend_data [of row_db None "''c1''" acme "''t''" signed_in
        "\<lparr>uid = ''u1''\<rparr>" acme "new_user_db :: (unit, unit jsobj) backend" Viewer
        env_db "''AZURE_MAPS_KEY''" three_circuits_db three_circuits]
    by (simp add: r n e s require_user_signed_in value_or_null_def three_circuits_def or_zero_def)
qed

section \<open>The profile of the current user\<close>

text \<open>
  C8. For an authenticated user: when the read finds no profile row and the insert is not
  refused, \<^verbatim>\<open>getCurrentUserProfile\<close> returns what the insert returned; the insert goes
  to \<open>user_profiles\<close> and asks for exactly one row, with the user's id and the role
  \<open>viewer\<close>; and whenever the call succeeds it returns a profile, not null, given that
  the backend answers a \<^verbatim>\<open>single()\<close> insert it does not refuse with the row.
\<close>

theorem getCurrentUserProfile_creates_viewer:
  fixes db :: "('n, 'd) backend"
  assumes "require_user auth = Inr u"
  shows "(db (getCurrentUserProfile_select u) = \<lparr>data = None, error = None\<rparr>
          \<and> error (db (getCurrentUserProfile_insert u)) = None
          \<longrightarrow> getCurrentUserProfile auth db = Inr (data (db (getCurrentUserProfile_insert u))))
     \<and> table (getCurrentUserProfile_insert u :: 'n request) = ''user_profiles''
     \<and> verb (getCurrentUserProfile_insert u :: 'n request)
         = Insert [[''user_id'' \<mapsto> JStr (uid u), ''role'' \<mapsto> JStr ''viewer'']]
     \<and> ((error (db (getCurrentUserProfile_insert u)) = None
            \<longrightarrow> data (db (getCurrentUserProfile_insert u)) \<noteq> None)
          \<and> getCurrentUserProfile auth db = Inr p
          \<longrightarrow> p \<noteq> None)"
proof -
  have t: "table (getCurrentUserProfile_insert u :: 'n request) = ''user_profiles''"
    by (simp add: getCurrentUserProfile_insert_def single_def select_def insert_rows_def
        from_table_def)
  show ?thesis
    unfolding getCurrentUserProfile_cases [OF assms] t
    by (auto simp add: verb_profile_requests split: option.splits)
qed

theorem getCurrentUserProfile_creates_viewer_witness:
  "require_user signed_in = Inr \<lparr>uid = ''u1''\<rparr>
   \<and> (new_user_db :: (unit, unit jsobj) backend) (getCurrentUserProfile_select \<lparr>uid = ''u1''\<rparr>)
       = \<lparr>data = None, error = None\<rparr>
   \<and> error ((new_user_db :: (unit, unit jsobj) backend)
         (getCurrentUserProfile_insert \<lparr>uid = ''u1''\<rparr>)) = None
   \<and> data ((new_user_db :: (unit, unit jsobj) backend)
         (getCurrentUserProfile_insert \<lparr>uid = ''u1''\<rparr>)) \<noteq> None
   \<and> getCurrentUserProfile signed_in (new_user_db :: (unit, unit jsobj) backend)
       = Inr (Some [''user_id'' \<mapsto> JStr ''u1'', ''role'' \<mapsto> JStr ''viewer''])"
proof -
  have n: "(new_user_db :: (unit, unit jsobj) backend)
        (getCurrentUserProfile_select \<lparr>uid = ''u1''\<rparr>) = \<lparr>data = None, error = None\<rparr>"
    "(new_user_db :: (unit, unit jsobj) backend) (getCurrentUserProfile_insert \<lparr>uid = ''u1''\<rparr>)
       = \<lparr>data = Some [''user_id'' \<mapsto> JStr ''u1'', ''role'' \<mapsto> JStr ''viewer''], error = None\<rparr>"
    by (simp_all add: new_user_db_def verb_profile_requests)
  show ?thesis
    using getCurrentUserProfile_creates_viewer [OF require_user_signed_in,
        of "new_user_db :: (unit, unit jsobj) backend"
           "Some [''user_id'' \<mapsto> JStr ''u1'', ''role'' \<mapsto> JStr ''viewer'']"]
    by (simp add: n require_user_signed_in)
qed

section \<open>Submitting the location edit form\<close>

lemma mutate_ignores_variables:
  "mutate db now i fd v = mutate db now i fd v'"
  by (simp add: mutate_def mutationFn_def)

lemma handleSubmit_resolved:
  "geocodeAddress (fullAddress sh fd) = Inr coords \<Longrightarrow>
   error (db (updateLocation_query now i fd)) = None \<Longrightarrow>
   handleSubmit sh geocodeAddress db now i fd =
     [PreventDefault, GeocodeAddress (fullAddress sh fd),
      Backend (updateLocation_query now i fd), InvalidateQueries ''locations'', OnClose]"
  by (simp add: handleSubmit_def mutate_def mutationFn_def updateLocation_def run_ok)

lemma fullAddress_austin: "fullAddress sh austin_form = ''1 Main St, Austin, TX 78701''"
  by (simp add: fullAddress_def austin_form_def get_prop_def)

text \<open>
  C4, at a submit. The address is geocoded first and the update is issued after the
  geocoder has resolved, but the update does not carry the coordinates: the geocoder
  resolves to a longitude and a latitude, and the record sent has neither.
\<close>

theorem handleSubmit_drops_coordinates:
  "handleSubmit print_table austin_geocoder saving_db ''2024-05-01T12:00:00.000Z'' ''loc1''
      austin_form
     = [PreventDefault, GeocodeAddress ''1 Main St, Austin, TX 78701'',
        Backend (updateLocation_query ''2024-05-01T12:00:00.000Z'' ''loc1'' austin_form),
        InvalidateQueries ''locations'', OnClose]
   \<and> austin_geocoder ''1 Main St, Austin, TX 78701''
       = Inr (Some [''longitude'' \<mapsto> JNum (- 97), ''latitude'' \<mapsto> JNum 30])
   \<and> update_payload (updateLocation_query ''2024-05-01T12:00:00.000Z'' ''loc1'' austin_form)
        ''longitude'' = None
   \<and> update_payload (updateLocation_query ''2024-05-01T12:00:00.000Z'' ''loc1'' austin_form)
        ''latitude'' = None"
proof -
  have g: "austin_geocoder (fullAddress print_table austin_form)
      = Inr (Some [''longitude'' \<mapsto> JNum (- 97), ''latitude'' \<mapsto> JNum 30])"
    by (simp add: austin_geocoder_def)
  have e: "error (saving_db (updateLocation_query ''2024-05-01T12:00:00.000Z'' ''loc1''
      austin_form)) = None"
    by (simp add: saving_db_def)
  have p: "update_payload (updateLocation_query ''2024-05-01T12:00:00.000Z'' ''loc1''
      austin_form) ''longitude'' = None"
    "update_payload (updateLocation_query ''2024-05-01T12:00:00.000Z'' ''loc1''
      austin_form) ''latitude'' = None"
    by (simp_all add: updateLocation_query_def update_payload_update with_updated_at_def
        austin_form_def)
  show ?thesis
    using handleSubmit_resolved [of austin_geocoder print_table austin_form _ saving_db
        "''2024-05-01T12:00:00.000Z''" "''loc1''", OF g e] p
    by (simp add: fullAddress_austin austin_geocoder_def)
qed

section \<open>Criticality\<close>

lemma criticalityColors_own:
  "criticalityColors ''High'' = ClassNames ''text-red-500 bg-red-50 dark:bg-red-900/20''"
  "criticalityColors ''Medium''
     = ClassNames ''text-yellow-500 bg-yellow-50 dark:bg-yellow-900/20''"
  "criticalityColors ''Low'' = ClassNames ''text-green-500 bg-green-50 dark:bg-green-900/20''"
  by (simp_all add: criticalityColors_def)

lemma own_not_inherited:
  "''High'' \<notin> set object_prototype_keys" "''Medium'' \<notin> set object_prototype_keys"
  "''Low'' \<notin> set object_prototype_keys"
  by (simp_all add: object_prototype_keys_def)

lemma criticalityColors_inherited:
  "c \<in> set object_prototype_keys \<Longrightarrow> criticalityColors c = Inherited c"
  using own_not_inherited by (auto simp add: criticalityColors_def)

lemma criticalityColors_default:
  "c \<notin> {''High'', ''Medium'', ''Low''} \<Longrightarrow> c \<notin> set object_prototype_keys
   \<Longrightarrow> criticalityColors c = ClassNames ''text-gray-500 bg-gray-50 dark:bg-gray-900/20''"
  by (simp add: criticalityColors_def)

text \<open>
  C6, as the code has it. The claim that every location the program handles has one of
  the three criticality levels fails: a fetched location with criticality \<open>Critical\<close>
  is returned by \<^verbatim>\<open>getLocations\<close> as it came, the edit form starts from it, and the
  card styles it with the default class.
\<close>

theorem criticality_counterexample:
  "getLocations critical_site_db None = Inr (Some [critical_site])
   \<and> get_prop critical_site ''criticality'' = JStr ''Critical''
   \<and> get_prop (initial_formData critical_site) ''criticality'' = JStr ''Critical''
   \<and> criticalityColors ''Critical'' = ClassNames ''text-gray-500 bg-gray-50 dark:bg-gray-900/20''"
proof -
  have "''Critical'' \<notin> set object_prototype_keys"
    by (simp add: object_prototype_keys_def)
  then have "criticalityColors ''Critical''
      = ClassNames ''text-gray-500 bg-gray-50 dark:bg-gray-900/20''"
    by (simp add: criticalityColors_default)
  then show ?thesis
    by (simp add: getLocations_def run_cases critical_site_db_def critical_site_def
        get_prop_def initial_formData_def)
qed

text \<open>
  C6, amended. The program does not restrict the criticality of a location:
  \<^verbatim>\<open>getLocations\<close> returns the fetched records as the backend sent them, and the edit
  form starts from the criticality of its record, whatever it is. A criticality chosen
  in the edit form's select is one of \<open>Low\<close>, \<open>Medium\<close> and \<open>High\<close>. The card has a
  class of its own for each of the three, gives the gray default to every other value
  that does not name a property inherited from the object prototype, and for a value
  that does finds that property and no class.
\<close>

theorem criticality_from_select:
  "(error (db (getLocations_query f)) = None
      \<longrightarrow> getLocations db f = Inr (data (db (getLocations_query f))))
   \<and> get_prop (initial_formData l) ''criticality'' = get_prop l ''criticality''
   \<and> (v \<in> set criticality_options
        \<longrightarrow> get_prop (handleChange fd ''criticality'' v) ''criticality''
              \<in> {JStr ''Low'', JStr ''Medium'', JStr ''High''})
   \<and> criticalityColors ''High'' = ClassNames ''text-red-500 bg-red-50 dark:bg-red-900/20''
   \<and> criticalityColors ''Medium''
        = ClassNames ''text-yellow-500 bg-yellow-50 dark:bg-yellow-900/20''
   \<and> criticalityColors ''Low'' = ClassNames ''text-green-500 bg-green-50 dark:bg-green-900/20''
   \<and> (c \<notin> {''High'', ''Medium'', ''Low''} \<and> c \<notin> set object_prototype_keys
        \<longrightarrow> criticalityColors c = ClassNames ''text-gray-500 bg-gray-50 dark:bg-gray-900/20'')
   \<and> (c' \<in> set object_prototype_keys \<longrightarrow> criticalityColors c' = Inherited c')"
proof -
  have s: "v \<in> set criticality_options
        \<longrightarrow> get_prop (handleChange fd ''criticality'' v) ''criticality''
              \<in> {JStr ''Low'', JStr ''Medium'', JStr ''High''}"
    by (auto simp add: criticality_options_def handleChange_def get_prop_def)
  have i: "get_prop (initial_formData l) ''criticality'' = get_prop l ''criticality''"
    by (simp add: initial_formData_def get_prop_def)
  show ?thesis
    using s i criticalityColors_default [of c] criticalityColors_inherited [of c']
    by (simp add: getLocations_def run_ok criticalityColors_own)
qed

theorem criticality_from_select_witness:
  "error (critical_site_db (getLocations_query None)) = None
   \<and> getLocations critical_site_db None = Inr (Some [critical_site])
   \<and> ''Medium'' \<in> set criticality_options
   \<and> get_prop (handleChange (initial_formData critical_site) ''criticality'' ''Medium'')
        ''criticality'' \<in> {JStr ''Low'', JStr ''Medium'', JStr ''High''}
   \<and> ''Critical'' \<notin> {''High'', ''Medium'', ''Low''}
   \<and> ''Critical'' \<notin> set object_prototype_keys
   \<and> criticalityColors ''Critical'' = ClassNames ''text-gray-500 bg-gray-50 dark:bg-gray-900/20''
   \<and> ''constructor'' \<in> set object_prototype_keys
   \<and> criticalityColors ''constructor'' = Inherited ''constructor''"
proof -
  have d: "\<And>q. critical_site_db q = \<lparr>data = Some [critical_site], error = None\<rparr>"
    by (simp add: critical_site_db_def)
  have k: "''Critical'' \<notin> set object_prototype_keys"
    "''constructor'' \<in> set object_prototype_keys"
    by (simp_all add: object_prototype_keys_def)
  show ?thesis
    using criticality_from_select [of critical_site_db None critical_site "''Medium''"
        "initial_formData critical_site" "''Critical''" "''constructor''"]
    by (simp add: d k criticality_options_def)
qed

section \<open>The points of the map\<close>

lemma missing_falsy: "missing v \<Longrightarrow> falsy v"
  by (cases v) simp_all

lemma add_location_skip:
  "bad_coordinates pf l \<Longrightarrow> same_map (add_location pf sel st l) st"
  by (auto simp add: bad_coordinates_def valid_position_def parsed_position_def in_range_def
      add_location_def same_map_def not_le dest: missing_falsy split: option.splits)

lemma add_location_only_valid:
  "\<not> same_map (add_location pf sel st l) st \<Longrightarrow> valid_position pf l"
  by (auto simp add: valid_position_def parsed_position_def in_range_def
      add_location_def same_map_def not_less split: option.splits if_splits)

lemma add_location_within_ranges:
  assumes "within_ranges pf ls st"
  shows "within_ranges pf (insert l ls) (add_location pf sel st l)"
proof (cases "same_map (add_location pf sel st l) st")
  case True
  with assms show ?thesis
    by (auto simp add: within_ranges_def same_map_def)
next
  case False
  then have v: "valid_position pf l" by (rule add_location_only_valid)
  then obtain lon lat where p: "pf (get_prop l ''longitude'') = Some lon"
    "pf (get_prop l ''latitude'') = Some lat" and r: "in_range (lon, lat)"
    by (auto simp add: valid_position_def parsed_position_def split: option.splits)
  from False have nf: "\<not> falsy (get_prop l ''longitude'')" "\<not> falsy (get_prop l ''latitude'')"
    by (auto simp add: add_location_def same_map_def split: if_splits)
  from r have r': "\<not> (lon < - 180 \<or> lon > 180 \<or> lat < - 90 \<or> lat > 90)"
    by (auto simp add: in_range_def)
  show ?thesis
    using assms r
    by (auto simp add: within_ranges_def add_location_def nf p r' Let_def in_range_def
        parsed_position_def min_le_iff_disj le_max_iff_disj split: option.splits)
qed

lemma foldl_within_ranges:
  "within_ranges pf S st \<Longrightarrow> within_ranges pf (S \<union> set ls) (foldl (add_location pf sel) st ls)"
proof (induction ls arbitrary: S st)
  case Nil
  then show ?case by simp
next
  case (Cons l ls)
  from add_location_within_ranges [OF Cons.prems]
  have "within_ranges pf (insert l S \<union> set ls) (foldl (add_location pf sel) (add_location pf sel st l) ls)"
    by (rule Cons.IH)
  then show ?case by simp
qed

lemma add_location_points_within_ranges:
  "within_ranges pf (set ls) (add_location_points pf sel ls)"
  using foldl_within_ranges [of pf "{}" cleared ls sel]
  by (simp add: add_location_points_def within_ranges_def cleared_def)

text \<open>
  C10. After the effect that adds the location points: every feature of the data source
  lies within [-180, 180] by [-90, 90], at the position that the coordinates of one of
  the locations parse to; the cluster source holds the same features; the bounds, and
  the bounds the camera is fitted to, have both corners within those ranges; a location
  with a missing, non-numeric or out-of-range coordinate leaves bounds and data sources
  untouched; and a step changes them only for a location whose coordinates both parse to
  numbers within the ranges. Numbers are any linearly ordered type.
\<close>

theorem map_points_within_ranges:
  fixes parseFloat :: "'n::{zero,linorder,numeral,uminus} jsval \<Rightarrow> 'n option"
  shows
  "(\<forall>p\<in>set (dataSource (add_location_points parseFloat sel ls)).
       in_range (point p) \<and> coordinates p = point p
       \<and> (\<exists>l\<in>set ls. parsed_position parseFloat l = Some (point p)))
   \<and> clusterSource (add_location_points parseFloat sel ls)
       = dataSource (add_location_points parseFloat sel ls)
   \<and> (\<forall>b. mapBounds (add_location_points parseFloat sel ls) = Some b
          \<longrightarrow> in_range (southWest b) \<and> in_range (northEast b))
   \<and> (\<forall>b. fitted_bounds parseFloat sel ls = Some b
          \<longrightarrow> in_range (southWest b) \<and> in_range (northEast b))
   \<and> (bad_coordinates parseFloat l \<longrightarrow> same_map (add_location parseFloat sel st l) st)
   \<and> (\<not> same_map (add_location parseFloat sel st' l') st' \<longrightarrow> valid_position parseFloat l')"
proof -
  have w: "within_ranges parseFloat (set ls) (add_location_points parseFloat sel ls)"
    by (rule add_location_points_within_ranges)
  have f: "\<forall>b. fitted_bounds parseFloat sel ls = Some b
          \<longrightarrow> in_range (southWest b) \<and> in_range (northEast b)"
    using w by (auto simp add: fitted_bounds_def within_ranges_def split: option.splits if_splits)
  show ?thesis
    using w f add_location_skip [of parseFloat l sel st]
      add_location_only_valid [of parseFloat sel st' l']
    unfolding within_ranges_def by blast
qed

lemma cleared_fields:
  "mapBounds cleared = None" "dataSource cleared = []" "clusterSource cleared = []"
  "warned cleared = []"
  by (simp_all add: cleared_def)

lemma near_site_added:
  "add_location parse_table JUndefined cleared near_site
     = \<lparr>mapBounds = Some \<lparr>southWest = (20, 10), northEast = (20, 10)\<rparr>,
        dataSource = [\<lparr>point = (20, 10), feature_id = JStr ''l2'', feature_name = JUndefined,
                       coordinates = (20, 10), selected = False,
                       feature_criticality = JUndefined\<rparr>],
        clusterSource = [\<lparr>point = (20, 10), feature_id = JStr ''l2'', feature_name = JUndefined,
                          coordinates = (20, 10), selected = False,
                          feature_criticality = JUndefined\<rparr>],
        warned = []\<rparr>"
  by (simp add: add_location_def near_site_def get_prop_def parse_table_def cleared_def Let_def)

lemma far_site_skipped:
  "add_location parse_table JUndefined st far_site = st\<lparr>warned := warned st @ [far_site]\<rparr>"
  by (simp add: add_location_def far_site_def get_prop_def parse_table_def)

lemma unplaced_site_skipped:
  "add_location parse_table JUndefined st unplaced_site = st"
  by (simp add: add_location_def unplaced_site_def get_prop_def)

lemma three_sites_points:
  "add_location_points parse_table JUndefined [near_site, far_site, unplaced_site]
     = (add_location parse_table JUndefined cleared near_site)\<lparr>warned := [far_site]\<rparr>"
  by (simp add: add_location_points_def far_site_skipped unplaced_site_skipped near_site_added)

lemma far_site_bad: "bad_coordinates parse_table far_site"
  by (simp add: bad_coordinates_def valid_position_def parsed_position_def far_site_def
      get_prop_def parse_table_def in_range_def)

theorem map_points_within_ranges_witness:
  "bad_coordinates parse_table far_site
   \<and> same_map (add_location parse_table JUndefined cleared far_site) cleared
   \<and> \<not> same_map (add_location parse_table JUndefined cleared near_site) cleared
   \<and> valid_position parse_table near_site
   \<and> map point (dataSource (add_location_points parse_table JUndefined
          [near_site, far_site, unplaced_site])) = [(20, 10)]
   \<and> in_range (20 :: int, 10 :: int)
   \<and> fitted_bounds parse_table JUndefined [near_site, far_site, unplaced_site]
       = Some \<lparr>southWest = (20, 10), northEast = (20, 10)\<rparr>"
proof -
  have n: "\<not> same_map (add_location parse_table JUndefined cleared near_site) cleared"
    by (simp add: near_site_added same_map_def cleared_fields)
  have d: "map point (dataSource (add_location_points parse_table JUndefined
          [near_site, far_site, unplaced_site])) = [(20, 10)]"
    by (simp add: three_sites_points near_site_added)
  have m: "mapBounds (add_location_points parse_table JUndefined
          [near_site, far_site, unplaced_site])
       = Some \<lparr>southWest = (20, 10), northEast = (20, 10)\<rparr>"
    by (simp add: three_sites_points near_site_added)
  have c: "\<not> falsy (get_prop near_site ''longitude'') \<and> \<not> falsy (get_prop near_site ''latitude'')"
    by (simp add: near_site_def get_prop_def)
  have b: "fitted_bounds parse_table JUndefined [near_site, far_site, unplaced_site]
       = Some \<lparr>southWest = (20, 10), northEast = (20, 10)\<rparr>"
    by (simp add: fitted_bounds_def m c)
  from map_points_within_ranges [of parse_table JUndefined
      "[near_site, far_site, unplaced_site]" far_site cleared cleared near_site]
  have t: "\<forall>p\<in>set (dataSource (add_location_points parse_table JUndefined
          [near_site, far_site, unplaced_site])). in_range (point p)"
    "same_map (add_location parse_table JUndefined cleared far_site) cleared"
    "valid_position parse_table near_site"
    using far_site_bad n by blast+
  from t(1) have "\<forall>q\<in>set (map point (dataSource (add_location_points parse_table JUndefined
          [near_site, far_site, unplaced_site]))). in_range q"
    by simp
  then have "in_range (20 :: int, 10 :: int)"
    unfolding d by simp
  with far_site_bad t(2,3) n d b show ?thesis by simp
qed

section \<open>Validation in process\<close>





end
